theory Spec2Isabelle
  imports Main
begin

section \<open>The OCPP gateway of src/index.ts\<close>

text \<open>
  The program is one TypeScript file: a WebSocket server whose per-connection handlers
  (\<open>message\<close>, \<open>close\<close>) maintain the global map \<open>chargerConnections\<close>, and two HTTP
  routes (\<open>/start\<close>, \<open>/stop\<close>) that look a charger up in that map and send it a command.
  The map is the only mutable state of the program. Each handler is modelled as a
  function from the map (and the inputs the environment supplies: the frame, the clock)
  to an outcome: what the handler returned or threw, the map afterwards, and the calls
  it made on sockets and on the console, in order.
\<close>

subsection \<open>JavaScript values\<close>

text \<open>
  The values that \<open>JSON.parse\<close> and property access produce. \<open>payload\<close> and
  \<open>req.body\<close> have type \<open>any\<close>, so the declared types do not restrict them.
  A number is held as the text that conversion to string gives it (\<open>2\<close>, \<open>-7\<close>,
  \<open>1.5\<close>, \<open>1e+21\<close>): that text names the number, every number has one, and only 0
  and -0 share theirs (\<open>0\<close>), which \<open>===\<close>, \<open>!\<close> and the keys of a Map do not tell
  apart either. \<open>JObj\<close> holds the own properties of a parsed object, each name once
  (\<open>JSON.parse\<close> keeps the last of a repeated name).
\<close>

datatype jsval =
    JUndefined
  | JNull
  | JBool bool
  | JNum string
  | JStr string
  | JArr "jsval list"
  | JObj "(string \<times> jsval) list"

datatype exn = SyntaxError | TypeError

text \<open>
  ToBoolean, as \<open>!x\<close>, \<open>a || b\<close> and \<open>if (x)\<close> apply it. The falsy numbers are 0
  (with -0) and NaN.
\<close>

fun truthy :: "jsval \<Rightarrow> bool" where
  "truthy JUndefined = False"
| "truthy JNull = False"
| "truthy (JBool b) = b"
| "truthy (JNum n) = (n \<noteq> ''0'' \<and> n \<noteq> ''NaN'')"
| "truthy (JStr s) = (s \<noteq> [])"
| "truthy (JArr xs) = True"
| "truthy (JObj fs) = True"

text \<open>\<open>a || b\<close>: the left operand when it is truthy, otherwise the right one.\<close>

definition js_or :: "jsval \<Rightarrow> jsval \<Rightarrow> jsval" where
  "js_or a b = (if truthy a then a else b)"

text \<open>
  Member access \<open>v.name\<close>, for the names this program reads (\<open>messageTypeId\<close>,
  \<open>uniqueId\<close>, \<open>action\<close>, \<open>payload\<close>, the \<open>chargePoint...\<close> fields and the fields of
  the HTTP bodies). None of them is an array index, \<open>length\<close> or a property of a
  built-in prototype, so on an array, a string, a number or a boolean the result is
  \<open>undefined\<close>; on \<open>undefined\<close> and \<open>null\<close> the access throws a TypeError.
\<close>

fun js_get :: "jsval \<Rightarrow> string \<Rightarrow> exn + jsval" where
  "js_get JUndefined name = Inl TypeError"
| "js_get JNull name = Inl TypeError"
| "js_get (JObj fs) name = Inr (case map_of fs name of None \<Rightarrow> JUndefined | Some v \<Rightarrow> v)"
| "js_get v name = Inr JUndefined"

subsection \<open>Conversion to string\<close>

text \<open>
  The decimal text of an integer: what a template literal prints for \<open>Date.now()\<close>,
  a whole number of milliseconds of at most sixteen digits.
\<close>

definition digit_char :: "nat \<Rightarrow> char" where
  "digit_char d = ''0123456789'' ! (d mod 10)"

fun show_nat :: "nat \<Rightarrow> string" where
  "show_nat n = (if n < 10 then [digit_char n] else show_nat (n div 10) @ [digit_char n])"

declare show_nat.simps [simp del]

definition show_int :: "int \<Rightarrow> string" where
  "show_int i = (if i < 0 then CHR ''-'' # show_nat (nat (- i)) else show_nat (nat i))"

text \<open>Array.prototype.join with the separator \<open>,\<close>; \<open>None\<close> when an element threw.\<close>

fun join_comma :: "string option list \<Rightarrow> string option" where
  "join_comma [] = Some []"
| "join_comma [x] = x"
| "join_comma (x # y # ys) =
     (case x of None \<Rightarrow> None
      | Some s \<Rightarrow> (case join_comma (y # ys) of None \<Rightarrow> None | Some r \<Rightarrow> Some (s @ '','' @ r)))"

text \<open>
  ToString, as a template literal applies it to each \<open>${...}\<close>; \<open>None\<close> is the
  TypeError "Cannot convert object to primitive value". An array prints its elements
  joined by commas, \<open>null\<close> and \<open>undefined\<close> elements as the empty string. A parsed
  object prints as \<open>[object Object]\<close> through Object.prototype.toString, unless it has an
  own property \<open>toString\<close>: that property is data, not callable, the inherited
  \<open>valueOf\<close> returns the object itself (an own \<open>valueOf\<close> is not callable either), and
  the conversion throws.
\<close>

fun to_string :: "jsval \<Rightarrow> string option" where
  "to_string JUndefined = Some ''undefined''"
| "to_string JNull = Some ''null''"
| "to_string (JBool b) = Some (if b then ''true'' else ''false'')"
| "to_string (JNum n) = Some n"
| "to_string (JStr s) = Some s"
| "to_string (JArr xs) =
     join_comma (map (\<lambda>x. if x = JUndefined \<or> x = JNull then Some [] else to_string x) xs)"
| "to_string (JObj fs) =
     (case map_of fs ''toString'' of None \<Rightarrow> Some ''[object Object]'' | Some v \<Rightarrow> None)"

subsection \<open>The connection map\<close>

text \<open>
  A WebSocket object is known by its identity (\<open>connection === ws\<close> compares
  references): a natural number.
\<close>

type_synonym conn = nat

text \<open>
  \<open>chargerConnections\<close> is a JavaScript Map: its entries in insertion order, which is
  the order \<open>entries()\<close> iterates in. The declared key type is \<open>string\<close>, but the key
  stored is whatever \<open>chargePointSerialNumber || chargePointModel\<close> evaluates to.
\<close>

type_synonym registry = "(jsval \<times> conn) list"

fun primitive :: "jsval \<Rightarrow> bool" where
  "primitive (JArr xs) = False"
| "primitive (JObj fs) = False"
| "primitive v = True"

text \<open>
  A Map compares keys with SameValueZero: primitives by value, an object or an array by
  reference. Every key this program hands to \<open>set\<close> or \<open>get\<close> comes out of a fresh
  \<open>JSON.parse\<close> (of the frame, of the request body), so an object or array key is never
  the same value as a key already stored.
\<close>

definition same_value_zero :: "jsval \<Rightarrow> jsval \<Rightarrow> bool" where
  "same_value_zero a b = (primitive a \<and> a = b)"

fun map_get :: "registry \<Rightarrow> jsval \<Rightarrow> conn option" where
  "map_get [] k = None"
| "map_get ((k', v) # es) k = (if same_value_zero k' k then Some v else map_get es k)"

text \<open>\<open>set\<close> on a key that is present replaces the value where the entry stands; a new key goes last.\<close>

fun map_set :: "jsval \<Rightarrow> conn \<Rightarrow> registry \<Rightarrow> registry" where
  "map_set k v [] = [(k, v)]"
| "map_set k v ((k', v') # es) =
     (if same_value_zero k' k then (k', v) # es else (k', v') # map_set k v es)"

text \<open>No key stands twice in a Map.\<close>

fun unique_keys :: "registry \<Rightarrow> bool" where
  "unique_keys [] = True"
| "unique_keys ((k, v) # es) = (map_get es k = None \<and> unique_keys es)"

subsection \<open>Outcomes\<close>

text \<open>
  The calls a handler makes on the outside world: \<open>ws.send(JSON.stringify(v))\<close> (the
  frame is kept as the value \<open>v\<close> handed to \<open>JSON.stringify\<close>), \<open>console.log\<close> and
  \<open>console.error\<close>. The program calls nothing else on a socket.
\<close>

datatype effect = Send conn jsval | Log string | LogError string

datatype 'a ret = Returned 'a | Thrown exn

record 'a outcome =
  result :: "'a ret"
  chargerConnections :: registry
  effects :: "effect list"

definition CALL_MESSAGE :: jsval where
  "CALL_MESSAGE = JNum ''2''"

definition CALL_RESULT_MESSAGE :: jsval where
  "CALL_RESULT_MESSAGE = JNum ''3''"

subsection \<open>The message handler\<close>

text \<open>\<open>now_iso\<close> is what \<open>new Date().toISOString()\<close> returns when the response is built.\<close>

definition sendBootNotificationResponse :: "conn \<Rightarrow> jsval \<Rightarrow> string \<Rightarrow> effect list" where
  "sendBootNotificationResponse ws uniqueId now_iso =
     [Send ws (JArr [CALL_RESULT_MESSAGE, uniqueId,
        JObj [(''currentTime'', JStr now_iso), (''interval'', JNum ''300''),
              (''status'', JStr ''Accepted'')]])]"

text \<open>The identity a BootNotification payload is registered under (line 94).\<close>

definition chargePointId_of :: "jsval \<Rightarrow> exn + jsval" where
  "chargePointId_of payload =
     (case js_get payload ''chargePointSerialNumber'' of
        Inl e \<Rightarrow> Inl e
      | Inr serial \<Rightarrow>
          (case js_get payload ''chargePointModel'' of
             Inl e \<Rightarrow> Inl e
           | Inr model \<Rightarrow> Inr (js_or serial model)))"

text \<open>
  The body of the BootNotification branch (lines 93 to 101). \<open>logged\<close> holds the calls
  made so far. Destructuring a payload that is \<open>undefined\<close> or \<open>null\<close> throws before
  the map is touched; a field that cannot be converted to a string throws in the
  template literal, after \<open>set\<close> and before the response.
\<close>

definition bootNotification :: "conn \<Rightarrow> jsval \<Rightarrow> string \<Rightarrow> registry \<Rightarrow> effect list \<Rightarrow> unit outcome" where
  "bootNotification ws ocppMessage now_iso reg logged =
     (case js_get ocppMessage ''payload'' of
        Inl e \<Rightarrow> \<lparr>result = Thrown e, chargerConnections = reg, effects = logged\<rparr>
      | Inr payload \<Rightarrow>
     (case js_get payload ''chargePointModel'' of
        Inl e \<Rightarrow> \<lparr>result = Thrown e, chargerConnections = reg, effects = logged\<rparr>
      | Inr chargePointModel \<Rightarrow>
     (case js_get payload ''chargePointVendor'' of
        Inl e \<Rightarrow> \<lparr>result = Thrown e, chargerConnections = reg, effects = logged\<rparr>
      | Inr chargePointVendor \<Rightarrow>
     (case chargePointId_of payload of
        Inl e \<Rightarrow> \<lparr>result = Thrown e, chargerConnections = reg, effects = logged\<rparr>
      | Inr chargePointId \<Rightarrow>
     (let reg' = map_set chargePointId ws reg in
      case (to_string chargePointId, to_string chargePointModel, to_string chargePointVendor) of
        (Some i, Some m, Some v) \<Rightarrow>
          (case js_get ocppMessage ''uniqueId'' of
             Inl e \<Rightarrow> \<lparr>result = Thrown e, chargerConnections = reg', effects = logged\<rparr>
           | Inr uniqueId \<Rightarrow>
               \<lparr>result = Returned (), chargerConnections = reg',
                effects = logged
                  @ [Log (''Charger '' @ i @ '' connected: Model '' @ m @ '', Vendor '' @ v)]
                  @ sendBootNotificationResponse ws uniqueId now_iso\<rparr>)
      | _ \<Rightarrow> \<lparr>result = Thrown TypeError, chargerConnections = reg', effects = logged\<rparr>)))))"

text \<open>
  The \<open>message\<close> handler of connection \<open>ws\<close> (lines 85 to 107). \<open>message\<close> is the text
  of the frame and \<open>parsed\<close> what \<open>JSON.parse(message)\<close> returns for it, \<open>None\<close> when
  it throws a SyntaxError. Nothing in the handler catches an exception.
\<close>

definition on_message :: "conn \<Rightarrow> string \<Rightarrow> jsval option \<Rightarrow> string \<Rightarrow> registry \<Rightarrow> unit outcome" where
  "on_message ws message parsed now_iso reg =
     (let logged = [Log (''Received: '' @ message)] in
      case parsed of
        None \<Rightarrow> \<lparr>result = Thrown SyntaxError, chargerConnections = reg, effects = logged\<rparr>
      | Some ocppMessage \<Rightarrow>
     (case js_get ocppMessage ''messageTypeId'' of
        Inl e \<Rightarrow> \<lparr>result = Thrown e, chargerConnections = reg, effects = logged\<rparr>
      | Inr messageTypeId \<Rightarrow>
          if messageTypeId = CALL_MESSAGE
             \<and> js_get ocppMessage ''action'' = Inr (JStr ''BootNotification'')
          then bootNotification ws ocppMessage now_iso reg logged
          else if messageTypeId = CALL_RESULT_MESSAGE
          then
            (case js_get ocppMessage ''action'' of
               Inl e \<Rightarrow> \<lparr>result = Thrown e, chargerConnections = reg, effects = logged\<rparr>
             | Inr action \<Rightarrow>
                 (case to_string action of
                    None \<Rightarrow> \<lparr>result = Thrown TypeError, chargerConnections = reg, effects = logged\<rparr>
                  | Some a \<Rightarrow>
                      \<lparr>result = Returned (), chargerConnections = reg,
                       effects = logged @ [Log (''Received response for: '' @ a)]\<rparr>))
          else \<lparr>result = Returned (), chargerConnections = reg,
                effects = logged @ [Log ''Unsupported message type or action'']\<rparr>))"

subsection \<open>The close handler\<close>

text \<open>
  The loop of lines 111 to 117: the entries in order, up to the first whose connection
  is \<open>ws\<close>; that entry is deleted and the loop left by \<open>break\<close>. The key handed to
  \<open>delete\<close> was read from the entry itself, so it is that entry that goes. The result is
  the map afterwards and the key deleted, if any.
\<close>

fun close_loop :: "conn \<Rightarrow> registry \<Rightarrow> registry \<times> jsval option" where
  "close_loop ws [] = ([], None)"
| "close_loop ws ((chargePointId, connection) # es) =
     (if connection = ws then (es, Some chargePointId)
      else (case close_loop ws es of
              (es', deleted) \<Rightarrow> ((chargePointId, connection) # es', deleted)))"

definition on_close :: "conn \<Rightarrow> registry \<Rightarrow> unit outcome" where
  "on_close ws reg =
     (case close_loop ws reg of
        (reg', None) \<Rightarrow> \<lparr>result = Returned (), chargerConnections = reg', effects = []\<rparr>
      | (reg', Some chargePointId) \<Rightarrow>
          (case to_string chargePointId of
             None \<Rightarrow> \<lparr>result = Thrown TypeError, chargerConnections = reg', effects = []\<rparr>
           | Some i \<Rightarrow>
               \<lparr>result = Returned (), chargerConnections = reg',
                effects = [Log (''Charger '' @ i @ '' disconnected'')]\<rparr>))"

subsection \<open>Outbound commands and the HTTP routes\<close>

text \<open>
  \<open>sendMessageToCharger\<close> (lines 40 to 48) returns nothing: whether it found the
  charger shows only on the console. \<open>if (ws)\<close> holds for every socket object.
\<close>

definition sendMessageToCharger :: "jsval \<Rightarrow> jsval \<Rightarrow> registry \<Rightarrow> unit outcome" where
  "sendMessageToCharger chargePointId message reg =
     (case map_get reg chargePointId of
        Some ws \<Rightarrow>
          (case to_string chargePointId of
             None \<Rightarrow>
               \<lparr>result = Thrown TypeError, chargerConnections = reg,
                effects = [Send ws message]\<rparr>
           | Some i \<Rightarrow>
               \<lparr>result = Returned (), chargerConnections = reg,
                effects = [Send ws message, Log (''Message sent to charger '' @ i)]\<rparr>)
      | None \<Rightarrow>
          (case to_string chargePointId of
             None \<Rightarrow> \<lparr>result = Thrown TypeError, chargerConnections = reg, effects = []\<rparr>
           | Some i \<Rightarrow>
               \<lparr>result = Returned (), chargerConnections = reg,
                effects = [LogError (''Charger with ID '' @ i @ '' not connected'')]\<rparr>))"

text \<open>\<open>now\<close> is what \<open>Date.now()\<close> returns: the milliseconds since the epoch.\<close>

definition remoteStartMessage :: "int \<Rightarrow> jsval \<Rightarrow> jsval \<Rightarrow> jsval" where
  "remoteStartMessage now connectorId idTag =
     JArr [CALL_MESSAGE, JStr (show_int now), JStr ''RemoteStartTransaction'',
           JObj [(''connectorId'', connectorId), (''idTag'', idTag)]]"

definition sendRemoteStartTransaction :: "int \<Rightarrow> jsval \<Rightarrow> jsval \<Rightarrow> jsval \<Rightarrow> registry \<Rightarrow> unit outcome" where
  "sendRemoteStartTransaction now chargePointId connectorId idTag reg =
     sendMessageToCharger chargePointId (remoteStartMessage now connectorId idTag) reg"

definition remoteStopMessage :: "int \<Rightarrow> jsval \<Rightarrow> jsval" where
  "remoteStopMessage now transactionId =
     JArr [CALL_MESSAGE, JStr (show_int now), JStr ''RemoteStopTransaction'',
           JObj [(''transactionId'', transactionId)]]"

definition sendRemoteStopTransaction :: "int \<Rightarrow> jsval \<Rightarrow> jsval \<Rightarrow> registry \<Rightarrow> unit outcome" where
  "sendRemoteStopTransaction now chargePointId transactionId reg =
     sendMessageToCharger chargePointId (remoteStopMessage now transactionId) reg"

text \<open>\<open>!v\<close>\<close>

definition js_not :: "jsval \<Rightarrow> bool" where
  "js_not v = (\<not> truthy v)"

text \<open>
  A route returns the status and the text it sends, or throws (Express then answers for
  it). \<open>body\<close> is \<open>req.body\<close>.
\<close>

type_synonym response = "nat \<times> string"

definition post_start :: "int \<Rightarrow> jsval \<Rightarrow> registry \<Rightarrow> response outcome" where
  "post_start now body reg =
     (case (js_get body ''chargePointId'', js_get body ''connectorId'', js_get body ''idTag'') of
        (Inr chargePointId, Inr connectorId, Inr idTag) \<Rightarrow>
          if js_not chargePointId \<or> js_not connectorId \<or> js_not idTag
          then \<lparr>result = Returned (400,
                   ''Missing required parameters: chargePointId, connectorId, idTag''),
                chargerConnections = reg, effects = []\<rparr>
          else
            (let sent = sendRemoteStartTransaction now chargePointId connectorId idTag reg in
             case (result sent, to_string chargePointId) of
               (Returned u, Some i) \<Rightarrow>
                 \<lparr>result = Returned (200, ''RemoteStartTransaction sent to charger '' @ i),
                  chargerConnections = chargerConnections sent, effects = effects sent\<rparr>
             | _ \<Rightarrow>
                 \<lparr>result = Thrown TypeError, chargerConnections = chargerConnections sent,
                  effects = effects sent\<rparr>)
      | _ \<Rightarrow> \<lparr>result = Thrown TypeError, chargerConnections = reg, effects = []\<rparr>)"

definition post_stop :: "int \<Rightarrow> jsval \<Rightarrow> registry \<Rightarrow> response outcome" where
  "post_stop now body reg =
     (case (js_get body ''chargePointId'', js_get body ''transactionId'') of
        (Inr chargePointId, Inr transactionId) \<Rightarrow>
          if js_not chargePointId \<or> js_not transactionId
          then \<lparr>result = Returned (400,
                   ''Missing required parameters: chargePointId, transactionId''),
                chargerConnections = reg, effects = []\<rparr>
          else
            (let sent = sendRemoteStopTransaction now chargePointId transactionId reg in
             case (result sent, to_string chargePointId) of
               (Returned u, Some i) \<Rightarrow>
                 \<lparr>result = Returned (200, ''RemoteStopTransaction sent to charger '' @ i),
                  chargerConnections = chargerConnections sent, effects = effects sent\<rparr>
             | _ \<Rightarrow>
                 \<lparr>result = Thrown TypeError, chargerConnections = chargerConnections sent,
                  effects = effects sent\<rparr>)
      | _ \<Rightarrow> \<lparr>result = Thrown TypeError, chargerConnections = reg, effects = []\<rparr>)"

subsection \<open>Notions used in the statements\<close>

text \<open>The condition of line 92: the frames that enter the BootNotification branch.\<close>

definition is_bootNotification :: "jsval \<Rightarrow> bool" where
  "is_bootNotification m =
     (js_get m ''messageTypeId'' = Inr CALL_MESSAGE
      \<and> js_get m ''action'' = Inr (JStr ''BootNotification''))"

text \<open>The identity line 94 derives from the payload of a message.\<close>

definition identity_of :: "jsval \<Rightarrow> exn + jsval" where
  "identity_of m =
     (case js_get m ''payload'' of Inl e \<Rightarrow> Inl e | Inr payload \<Rightarrow> chargePointId_of payload)"


text \<open>The calls made on the socket \<open>c\<close>.\<close>

fun sent_to :: "conn \<Rightarrow> effect \<Rightarrow> bool" where
  "sent_to c (Send c' v) = (c' = c)"
| "sent_to c e = False"

text \<open>
  The states of the map the program can be in: it starts empty, and every run of a
  handler or a route, whatever it is given and whether it returns or throws, leads from
  one state to the next.
\<close>

inductive reachable :: "registry \<Rightarrow> bool" where
  start: "reachable []"
| message: "reachable reg \<Longrightarrow>
     reachable (chargerConnections (on_message ws message parsed now_iso reg))"
| close: "reachable reg \<Longrightarrow> reachable (chargerConnections (on_close ws reg))"
| start_route: "reachable reg \<Longrightarrow> reachable (chargerConnections (post_start now body reg))"
| stop_route: "reachable reg \<Longrightarrow> reachable (chargerConnections (post_stop now body reg))"

subsection \<open>Frames and bodies of the examples\<close>

definition iso0 :: string where
  "iso0 = ''2024-01-01T00:00:00.000Z''"

text \<open>The BootNotification of the scenario, as a charger puts it on the wire.\<close>

definition scenario_text :: string where
  \<open>scenario_text = ''[2,"1","BootNotification",{"chargePointModel":"X1","chargePointVendor":"Acme","chargePointSerialNumber":"SN42"}]''\<close>

definition scenario_frame :: jsval where
  "scenario_frame =
     JArr [JNum ''2'', JStr ''1'', JStr ''BootNotification'',
           JObj [(''chargePointModel'', JStr ''X1''), (''chargePointVendor'', JStr ''Acme''),
                 (''chargePointSerialNumber'', JStr ''SN42'')]]"

text \<open>
  The same BootNotification as an object with the fields of the interface
  \<open>OCPPMessage\<close>, the shape the handler reads, for a given serial number.
\<close>

definition boot_text :: "string \<Rightarrow> string" where
  \<open>boot_text serial =
     ''{"messageTypeId":2,"uniqueId":"1","action":"BootNotification","payload":{"chargePointModel":"X1","chargePointVendor":"Acme","chargePointSerialNumber":"''
       @ serial @ ''"}}''\<close>

definition boot_object :: "string \<Rightarrow> jsval" where
  "boot_object serial =
     JObj [(''messageTypeId'', JNum ''2''), (''uniqueId'', JStr ''1''),
           (''action'', JStr ''BootNotification''),
           (''payload'', JObj [(''chargePointModel'', JStr ''X1''),
                               (''chargePointVendor'', JStr ''Acme''),
                               (''chargePointSerialNumber'', JStr serial)])]"



text \<open>The body of \<open>POST /start\<close> of the scenario, for a given connector.\<close>

definition start_body :: "jsval \<Rightarrow> jsval" where
  "start_body connectorId =
     JObj [(''chargePointId'', JStr ''SN42''), (''connectorId'', connectorId),
           (''idTag'', JStr ''TAG1'')]"

section \<open>Properties\<close>

subsection \<open>The map\<close>

lemma map_get_map_set_same: "primitive k \<Longrightarrow> map_get (map_set k v reg) k = Some v"
  by (induction reg) (auto simp: same_value_zero_def)

lemma map_get_map_set_None:
  "map_get reg k' = None \<Longrightarrow> \<not> same_value_zero k' k \<Longrightarrow> map_get (map_set k v reg) k' = None"
  by (induction reg) (auto simp: same_value_zero_def split: if_splits)

lemma set_map_set:
  "(k', c) \<in> set (map_set k v reg) \<Longrightarrow>
   (k', c) \<in> set reg \<or> (c = v \<and> (k' = k \<or> same_value_zero k' k))"
  by (induction reg) (auto split: if_splits)

text \<open>\<open>set\<close> keeps the keys of the map distinct.\<close>

lemma unique_keys_map_set: "unique_keys reg \<Longrightarrow> unique_keys (map_set k v reg)"
proof (induction reg)
  case Nil
  then show ?case by simp
next
  case (Cons e es)
  obtain k' v' where e: "e = (k', v')" by (cases e)
  show ?case
  proof (cases "same_value_zero k' k")
    case True
    with Cons.prems e show ?thesis by simp
  next
    case False
    have "map_get es k' = None" using Cons.prems e by simp
    then have "map_get (map_set k v es) k' = None"
      using False by (rule map_get_map_set_None)
    with Cons e False show ?thesis by simp
  qed
qed

lemma filter_key_absent:
  "map_get reg k = None \<Longrightarrow> filter (\<lambda>e. same_value_zero (fst e) k) reg = []"
  by (induction reg) (auto split: if_splits)

text \<open>After \<open>set\<close> the key has one entry, the one just written.\<close>

lemma filter_key_map_set:
  "unique_keys reg \<Longrightarrow> primitive k \<Longrightarrow>
   filter (\<lambda>e. same_value_zero (fst e) k) (map_set k v reg) = [(k, v)]"
proof (induction reg)
  case Nil
  then show ?case by (simp add: same_value_zero_def)
next
  case (Cons e es)
  obtain k' v' where e: "e = (k', v')" by (cases e)
  show ?case
  proof (cases "same_value_zero k' k")
    case True
    then have "k' = k" by (simp add: same_value_zero_def)
    moreover from Cons.prems e have "map_get es k' = None" by simp
    ultimately have "filter (\<lambda>e. same_value_zero (fst e) k) es = []"
      by (simp add: filter_key_absent)
    with True e \<open>k' = k\<close> show ?thesis by simp
  next
    case False
    with Cons e show ?thesis by simp
  qed
qed

lemma filter_other_map_set:
  "filter (\<lambda>e. \<not> same_value_zero (fst e) k) (map_set k v reg)
   = filter (\<lambda>e. \<not> same_value_zero (fst e) k) reg @ (if primitive k then [] else [(k, v)])"
  by (induction reg) (auto simp: same_value_zero_def)

subsection \<open>The loop of the close handler\<close>

lemma map_get_close_loop_None:
  "map_get reg k = None \<Longrightarrow> map_get (fst (close_loop ws reg)) k = None"
  by (induction reg) (auto split: if_splits prod.splits)

lemma close_loop_unique: "unique_keys reg \<Longrightarrow> unique_keys (fst (close_loop ws reg))"
proof (induction reg)
  case Nil
  then show ?case by simp
next
  case (Cons e es)
  obtain k c where e: "e = (k, c)" by (cases e)
  from Cons.prems e have "map_get (fst (close_loop ws es)) k = None"
    by (simp add: map_get_close_loop_None)
  with Cons e show ?case by (cases "close_loop ws es") auto
qed

lemma close_loop_split:
  "ws \<notin> snd ` set pre \<Longrightarrow> close_loop ws (pre @ (k, ws) # post) = (pre @ post, Some k)"
  by (induction pre) auto

lemma close_loop_absent: "ws \<notin> snd ` set reg \<Longrightarrow> close_loop ws reg = (reg, None)"
  by (induction reg) auto

lemma close_loop_length: "length reg \<le> Suc (length (fst (close_loop ws reg)))"
  by (induction reg) (auto split: prod.splits)

lemma close_removes_sole_identity:
  assumes "unique_keys reg" and "map_get reg I = Some ws"
    and "\<forall>e \<in> set reg. snd e = ws \<longrightarrow> fst e = I"
  shows "map_get (fst (close_loop ws reg)) I = None"
  using assms
proof (induction reg)
  case Nil
  then show ?case by simp
next
  case (Cons e es)
  obtain k c where e: "e = (k, c)" by (cases e)
  show ?case
  proof (cases "c = ws")
    case True
    with Cons.prems e have "k = I" by simp
    with Cons.prems e True show ?thesis by simp
  next
    case False
    with Cons.prems e have "\<not> same_value_zero k I" and "map_get es I = Some ws"
      by (auto split: if_splits)
    with Cons e False show ?thesis by (auto split: prod.splits)
  qed
qed

lemma on_close_registry: "chargerConnections (on_close ws reg) = fst (close_loop ws reg)"
  by (cases "close_loop ws reg") (auto simp: on_close_def split: option.splits)

subsection \<open>The message handler\<close>

lemma js_get_throws: "(js_get v n = Inl e) = (e = TypeError \<and> (v = JUndefined \<or> v = JNull))"
  by (cases v) auto

lemma on_message_boot_registry:
  assumes "is_bootNotification m" and "identity_of m = Inr I"
  shows "chargerConnections (on_message ws message (Some m) now_iso reg) = map_set I ws reg"
  using assms
  by (auto simp: on_message_def bootNotification_def is_bootNotification_def identity_of_def
        chargePointId_of_def Let_def js_get_throws split: sum.splits option.splits)

lemma on_message_boot_effects:
  assumes "is_bootNotification m"
  shows "filter (sent_to c) (effects (on_message ws message (Some m) now_iso reg)) = []
         \<or> c = ws"
  using assms
  by (auto simp: on_message_def bootNotification_def is_bootNotification_def
        sendBootNotificationResponse_def Let_def split: sum.splits option.splits)

text \<open>
  The map has distinct keys in every state of the program: it starts empty, the message
  handler changes it by \<open>set\<close> only, the close handler by its loop, and the routes do
  not change it.
\<close>

lemma on_message_registry_cases:
  "chargerConnections (on_message ws message parsed now_iso reg) = reg
   \<or> (\<exists>I. chargerConnections (on_message ws message parsed now_iso reg) = map_set I ws reg)"
  by (auto simp: on_message_def bootNotification_def Let_def split: sum.splits option.splits)

lemma unique_keys_on_message:
  "unique_keys reg \<Longrightarrow> unique_keys (chargerConnections (on_message ws message parsed now_iso reg))"
  using on_message_registry_cases [of ws message parsed now_iso reg]
  by (auto simp: unique_keys_map_set)

lemma unique_keys_on_close:
  "unique_keys reg \<Longrightarrow> unique_keys (chargerConnections (on_close ws reg))"
  by (simp add: on_close_registry close_loop_unique)

lemma routes_keep_registry:
  "chargerConnections (post_start now body reg) = reg"
  "chargerConnections (post_stop now body reg) = reg"
  by (auto simp: post_start_def post_stop_def sendRemoteStartTransaction_def
        sendRemoteStopTransaction_def sendMessageToCharger_def Let_def
        split: sum.splits option.splits ret.splits)

theorem reachable_unique_keys: "reachable reg \<Longrightarrow> unique_keys reg"
  by (induction rule: reachable.induct)
    (simp_all add: unique_keys_on_message unique_keys_on_close routes_keep_registry)

subsection \<open>What the handlers do on the frames they read\<close>

text \<open>
  A frame that parses to an array, a number, a string or a boolean has none of the
  fields the handler reads: it is logged as unsupported and dropped, whatever it holds.
\<close>

lemma frames_without_fields_are_dropped:
  assumes "v = JArr xs \<or> v = JNum n \<or> v = JStr s \<or> v = JBool b"
  shows "on_message ws message (Some v) now_iso reg =
     \<lparr>result = Returned (), chargerConnections = reg,
      effects = [Log (''Received: '' @ message), Log ''Unsupported message type or action'']\<rparr>"
  using assms
  by (auto simp: on_message_def CALL_MESSAGE_def CALL_RESULT_MESSAGE_def)

text \<open>
  On a frame that enters the BootNotification branch, with a primitive identity \<open>I\<close>:
  a lookup of \<open>I\<close> in the map the handler leaves returns the connection; and when
  the close handler of that connection runs next, on that map, a lookup of \<open>I\<close>
  finds nothing, provided the connection was registered under no other identity.
\<close>

lemma boot_then_close_sole_identity:
  assumes "unique_keys reg"
    and "is_bootNotification m" and "identity_of m = Inr I" and "primitive I"
    and "reg' = chargerConnections (on_message ws message (Some m) now_iso reg)"
  shows "map_get reg' I = Some ws
       \<and> ((\<forall>e \<in> set reg. snd e = ws \<longrightarrow> fst e = I)
            \<longrightarrow> map_get (chargerConnections (on_close ws reg')) I = None)"
proof -
  have reg': "reg' = map_set I ws reg"
    using assms(2,3,5) by (simp add: on_message_boot_registry)
  have found: "map_get reg' I = Some ws"
    using reg' assms(4) by (simp add: map_get_map_set_same)
  have uniq: "unique_keys reg'"
    using reg' assms(1) by (simp add: unique_keys_map_set)
  have "map_get (chargerConnections (on_close ws reg')) I = None"
    if sole: "\<forall>e \<in> set reg. snd e = ws \<longrightarrow> fst e = I"
  proof -
    have "\<forall>e \<in> set reg'. snd e = ws \<longrightarrow> fst e = I"
    proof
      fix e assume "e \<in> set reg'"
      then have "(fst e, snd e) \<in> set (map_set I ws reg)" using reg' by simp
      from set_map_set [OF this] sole show "snd e = ws \<longrightarrow> fst e = I"
        by (auto simp: same_value_zero_def)
    qed
    with uniq found show ?thesis
      by (simp add: on_close_registry close_removes_sole_identity)
  qed
  with found show ?thesis by simp
qed

text \<open>
  On two frames that enter the BootNotification branch with the same primitive identity,
  taken on two connections one after the other: the identity has exactly one entry, the
  later connection; the entries of every other identity are those of the map before the
  two, in their order; and the later handler makes no call on the earlier connection.
\<close>

lemma later_boot_replaces_earlier:
  assumes "unique_keys reg"
    and "is_bootNotification m1" and "identity_of m1 = Inr I"
    and "is_bootNotification m2" and "identity_of m2 = Inr I'"
    and "same_value_zero I I'"
    and "ws1 \<noteq> ws2"
    and "reg1 = chargerConnections (on_message ws1 t1 (Some m1) iso1 reg)"
    and "out2 = on_message ws2 t2 (Some m2) iso2 reg1"
  shows "filter (\<lambda>e. same_value_zero (fst e) I) (chargerConnections out2) = [(I, ws2)]
       \<and> map_get (chargerConnections out2) I = Some ws2
       \<and> filter (\<lambda>e. \<not> same_value_zero (fst e) I) (chargerConnections out2)
           = filter (\<lambda>e. \<not> same_value_zero (fst e) I) reg
       \<and> filter (sent_to ws1) (effects out2) = []"
proof -
  from assms(6) have prim: "primitive I" and eq: "I' = I"
    by (auto simp: same_value_zero_def)
  have reg1: "reg1 = map_set I ws1 reg"
    using assms(2,3,8) by (simp add: on_message_boot_registry)
  have reg2: "chargerConnections out2 = map_set I ws2 reg1"
    using assms(4,5,9) eq by (simp add: on_message_boot_registry)
  have uniq1: "unique_keys reg1"
    using assms(1) reg1 by (simp add: unique_keys_map_set)
  have "filter (sent_to ws1) (effects out2) = []"
    using on_message_boot_effects [OF assms(4), of ws1 ws2 t2 iso2 reg1] assms(7,9) by simp
  then show ?thesis
    using reg1 reg2 uniq1 prim
    by (simp add: filter_key_map_set filter_other_map_set map_get_map_set_same)
qed

subsection \<open>The routes\<close>

text \<open>
  \<open>POST /start\<close> answers 400 exactly when one of the three fields is falsy: absent,
  \<open>null\<close>, \<open>false\<close>, 0 or the empty string.
\<close>

lemma post_start_400_iff:
  assumes "js_get body ''chargePointId'' = Inr chargePointId"
    and "js_get body ''connectorId'' = Inr connectorId"
    and "js_get body ''idTag'' = Inr idTag"
  shows "(result (post_start now body reg)
            = Returned (400, ''Missing required parameters: chargePointId, connectorId, idTag''))
         = (\<not> (truthy chargePointId \<and> truthy connectorId \<and> truthy idTag))"
  using assms
  by (auto simp: post_start_def js_not_def Let_def split: ret.splits option.splits)

lemma show_int_example: "show_int 1700000000000 = ''1700000000000''"
  by (simp add: show_int_def show_nat.simps digit_char_def)

section \<open>The claims\<close>

subsection \<open>C1: the reply to a BootNotification\<close>

text \<open>
  Claim C1: every inbound Call \<open>[2, uniqueId, "BootNotification", payload]\<close> is
  answered on the same connection with the CallResult
  \<open>[3, uniqueId, {currentTime, interval: 300, status: "Accepted"}]\<close>.
  The handler reads the parsed frame by field name (\<open>ocppMessage.messageTypeId\<close>,
  \<open>ocppMessage.action\<close>), and a frame on the wire is an array, which has no such
  fields. At the frame of the scenario the handler therefore takes its last branch:
  it logs the frame as unsupported, registers nothing and sends nothing.
\<close>

theorem C1_scenario_frame_is_not_answered:
  "on_message 1 scenario_text (Some scenario_frame) iso0 [] =
     \<lparr>result = Returned (), chargerConnections = [],
      effects = [Log (''Received: '' @ scenario_text),
                 Log ''Unsupported message type or action'']\<rparr>"
  by (simp add: on_message_def scenario_frame_def CALL_MESSAGE_def CALL_RESULT_MESSAGE_def)

subsection \<open>C2: lookup after the handshake and after close\<close>

text \<open>
  Claim C2: after a BootNotification of a connection with identity \<open>I\<close> a lookup of
  \<open>I\<close> returns that connection, and after the connection closes a lookup of \<open>I\<close>
  finds nothing. The close handler ("Find the charger that disconnected and remove
  from the map") deletes the first entry of the closing connection and leaves its loop.
  Connection 1 boots as \<open>A\<close>, boots again as \<open>SN42\<close> (the handler returns, and a
  lookup of \<open>SN42\<close> returns connection 1), and closes: the entry \<open>A\<close> is deleted,
  a lookup of \<open>SN42\<close> still returns connection 1, and the request of the scenario is
  then sent on that closed connection.
\<close>

theorem C2_second_identity_survives_close:
  "identity_of (boot_object ''SN42'') = Inr (JStr ''SN42'')
   \<and> result (on_message 1 (boot_text ''SN42'') (Some (boot_object ''SN42'')) iso0
       (chargerConnections (on_message 1 (boot_text ''A'') (Some (boot_object ''A'')) iso0 [])))
     = Returned ()
   \<and> map_get
       (chargerConnections (on_message 1 (boot_text ''SN42'') (Some (boot_object ''SN42'')) iso0
          (chargerConnections (on_message 1 (boot_text ''A'') (Some (boot_object ''A'')) iso0 []))))
       (JStr ''SN42'')
     = Some 1
   \<and> on_close 1
       (chargerConnections (on_message 1 (boot_text ''SN42'') (Some (boot_object ''SN42'')) iso0
          (chargerConnections (on_message 1 (boot_text ''A'') (Some (boot_object ''A'')) iso0 []))))
     = \<lparr>result = Returned (), chargerConnections = [(JStr ''SN42'', 1)],
        effects = [Log ''Charger A disconnected'']\<rparr>
   \<and> map_get [(JStr ''SN42'', 1)] (JStr ''SN42'') = Some 1
   \<and> effects (post_start 1700000000000 (start_body (JNum ''1'')) [(JStr ''SN42'', 1)])
     = [Send 1 (JArr [JNum ''2'', JStr ''1700000000000'', JStr ''RemoteStartTransaction'',
                      JObj [(''connectorId'', JNum ''1''), (''idTag'', JStr ''TAG1'')]]),
        Log ''Message sent to charger SN42'']"
  by (simp add: on_message_def bootNotification_def boot_object_def CALL_MESSAGE_def
        identity_of_def chargePointId_of_def js_or_def same_value_zero_def on_close_def
        post_start_def start_body_def js_not_def sendRemoteStartTransaction_def
        sendMessageToCharger_def remoteStartMessage_def show_int_example)

subsection \<open>C3: a command for a charger that is not connected\<close>

text \<open>
  Claim C3, as the code has it: for an identity with no registered connection,
  \<open>sendRemoteStartTransaction\<close> sends no frame and changes no state; the miss is
  reported on the console only (\<open>console.error\<close>), nothing is returned to the caller,
  and \<open>POST /start\<close> answers 200 with the confirmation text.
\<close>

theorem C3_unknown_charger_is_only_logged:
  assumes "map_get reg chargePointId = None"
    and "to_string chargePointId = Some i"
    and "js_get body ''chargePointId'' = Inr chargePointId"
    and "js_get body ''connectorId'' = Inr connectorId"
    and "js_get body ''idTag'' = Inr idTag"
    and "truthy chargePointId" and "truthy connectorId" and "truthy idTag"
  shows "sendRemoteStartTransaction now chargePointId connectorId idTag reg =
           \<lparr>result = Returned (), chargerConnections = reg,
            effects = [LogError (''Charger with ID '' @ i @ '' not connected'')]\<rparr>
       \<and> post_start now body reg =
           \<lparr>result = Returned (200, ''RemoteStartTransaction sent to charger '' @ i),
            chargerConnections = reg,
            effects = [LogError (''Charger with ID '' @ i @ '' not connected'')]\<rparr>"
  using assms
  by (simp add: post_start_def js_not_def sendRemoteStartTransaction_def sendMessageToCharger_def)

text \<open>The theorem at the request of the scenario, while only another charger is connected.\<close>

theorem C3_unknown_charger_is_only_logged_witness:
  "post_start 1700000000000 (start_body (JNum ''1'')) [(JStr ''OTHER'', 1)] =
     \<lparr>result = Returned (200, ''RemoteStartTransaction sent to charger SN42''),
      chargerConnections = [(JStr ''OTHER'', 1)],
      effects = [LogError ''Charger with ID SN42 not connected'']\<rparr>"
proof -
  have a: "map_get [(JStr ''OTHER'', 1)] (JStr ''SN42'') = None"
    by (simp add: same_value_zero_def)
  have b: "to_string (JStr ''SN42'') = Some ''SN42''" by simp
  have c: "js_get (start_body (JNum ''1'')) ''chargePointId'' = Inr (JStr ''SN42'')"
    "js_get (start_body (JNum ''1'')) ''connectorId'' = Inr (JNum ''1'')"
    "js_get (start_body (JNum ''1'')) ''idTag'' = Inr (JStr ''TAG1'')"
    by (simp_all add: start_body_def)
  have d: "truthy (JStr ''SN42'')" "truthy (JNum ''1'')" "truthy (JStr ''TAG1'')" by simp_all
  from C3_unknown_charger_is_only_logged [OF a b c d, of 1700000000000]
  show ?thesis by simp
qed

text \<open>
  The claim as stated fails: with no charger connected, the request of the scenario is
  answered 200 "sent", not with an error.
\<close>

theorem C3_counterexample:
  "post_start 1700000000000 (start_body (JNum ''1'')) [] =
     \<lparr>result = Returned (200, ''RemoteStartTransaction sent to charger SN42''),
      chargerConnections = [],
      effects = [LogError ''Charger with ID SN42 not connected'']\<rparr>"
  by (simp add: post_start_def start_body_def js_not_def sendRemoteStartTransaction_def
        sendMessageToCharger_def)

subsection \<open>C4: the uniqueId of an outbound Call\<close>

text \<open>
  Claim C4: two distinct sends, also within one millisecond, carry distinct uniqueIds.
  The uniqueId is the text of \<open>Date.now()\<close> (the comment beside it reads "Unique ID
  for this transaction"). Two RemoteStartTransaction commands and a
  RemoteStopTransaction sent while the clock reads \<open>1700000000000\<close> all carry the
  uniqueId \<open>1700000000000\<close>.
\<close>

theorem C4_same_millisecond_same_uniqueId:
  "effects (sendRemoteStartTransaction 1700000000000 (JStr ''SN42'') (JNum ''1'') (JStr ''TAG1'')
              [(JStr ''SN42'', 1)])
     = [Send 1 (JArr [JNum ''2'', JStr ''1700000000000'', JStr ''RemoteStartTransaction'',
                      JObj [(''connectorId'', JNum ''1''), (''idTag'', JStr ''TAG1'')]]),
        Log ''Message sent to charger SN42'']
   \<and> effects (sendRemoteStartTransaction 1700000000000 (JStr ''SN42'') (JNum ''2'') (JStr ''TAG2'')
              [(JStr ''SN42'', 1)])
     = [Send 1 (JArr [JNum ''2'', JStr ''1700000000000'', JStr ''RemoteStartTransaction'',
                      JObj [(''connectorId'', JNum ''2''), (''idTag'', JStr ''TAG2'')]]),
        Log ''Message sent to charger SN42'']
   \<and> effects (sendRemoteStopTransaction 1700000000000 (JStr ''SN42'') (JNum ''7'')
              [(JStr ''SN42'', 1)])
     = [Send 1 (JArr [JNum ''2'', JStr ''1700000000000'', JStr ''RemoteStopTransaction'',
                      JObj [(''transactionId'', JNum ''7'')]]),
        Log ''Message sent to charger SN42'']"
  by (simp add: sendRemoteStartTransaction_def sendRemoteStopTransaction_def
        sendMessageToCharger_def remoteStartMessage_def remoteStopMessage_def
        same_value_zero_def show_int_example CALL_MESSAGE_def)

subsection \<open>C5: pending correlations\<close>




subsection \<open>C6: the identity derived from a BootNotification payload\<close>

text \<open>
  Claim C6, as the code has it: the derived identity is \<open>chargePointSerialNumber\<close> when
  that field is truthy (present, and not the empty string, 0, \<open>false\<close> or \<open>null\<close>),
  and \<open>chargePointModel\<close> otherwise.
\<close>

theorem C6_identity_is_truthy_serial_else_model:
  assumes "js_get payload ''chargePointSerialNumber'' = Inr serial"
    and "js_get payload ''chargePointModel'' = Inr model"
  shows "chargePointId_of payload = Inr (if truthy serial then serial else model)"
  using assms by (simp add: chargePointId_of_def js_or_def)

text \<open>The theorem at the payload of the scenario, and at the same payload without its serial number.\<close>

theorem C6_identity_is_truthy_serial_else_model_witness:
  "chargePointId_of (JObj [(''chargePointModel'', JStr ''X1''), (''chargePointVendor'', JStr ''Acme''),
       (''chargePointSerialNumber'', JStr ''SN42'')]) = Inr (JStr ''SN42'')
   \<and> chargePointId_of (JObj [(''chargePointModel'', JStr ''X1''), (''chargePointVendor'', JStr ''Acme'')])
       = Inr (JStr ''X1'')"
  using
    C6_identity_is_truthy_serial_else_model [of
      "JObj [(''chargePointModel'', JStr ''X1''), (''chargePointVendor'', JStr ''Acme''),
             (''chargePointSerialNumber'', JStr ''SN42'')]" "JStr ''SN42''" "JStr ''X1''"]
    C6_identity_is_truthy_serial_else_model [of
      "JObj [(''chargePointModel'', JStr ''X1''), (''chargePointVendor'', JStr ''Acme'')]"
      JUndefined "JStr ''X1''"]
  by simp

text \<open>
  The claim as stated fails: a payload whose serial number is present and empty gets
  the model as its identity.
\<close>

theorem C6_counterexample:
  "js_get (JObj [(''chargePointModel'', JStr ''X1''), (''chargePointVendor'', JStr ''Acme''),
                 (''chargePointSerialNumber'', JStr [])]) ''chargePointSerialNumber''
     = Inr (JStr [])
   \<and> chargePointId_of (JObj [(''chargePointModel'', JStr ''X1''), (''chargePointVendor'', JStr ''Acme''),
                 (''chargePointSerialNumber'', JStr [])])
     = Inr (JStr ''X1'')"
  by (simp add: chargePointId_of_def js_or_def)

subsection \<open>C7: two connections, one identity\<close>

text \<open>
  Claim C7: when two BootNotifications with the same derived identity arrive on two
  different open connections, the map holds exactly one entry for that identity, that
  of the later connection, and nothing is done to the earlier connection. The
  BootNotification of the scenario arrives on connection 1 and then on connection 2:
  each is logged as unsupported, as in C1, and the map holds no entry for \<open>SN42\<close>
  afterwards, or for anything else.
\<close>

theorem C7_wire_boots_register_nothing:
  "on_message 1 scenario_text (Some scenario_frame) iso0 [] =
     \<lparr>result = Returned (), chargerConnections = [],
      effects = [Log (''Received: '' @ scenario_text),
                 Log ''Unsupported message type or action'']\<rparr>
   \<and> on_message 2 scenario_text (Some scenario_frame) iso0
       (chargerConnections (on_message 1 scenario_text (Some scenario_frame) iso0 [])) =
     \<lparr>result = Returned (), chargerConnections = [],
      effects = [Log (''Received: '' @ scenario_text),
                 Log ''Unsupported message type or action'']\<rparr>
   \<and> map_get
       (chargerConnections (on_message 2 scenario_text (Some scenario_frame) iso0
          (chargerConnections (on_message 1 scenario_text (Some scenario_frame) iso0 []))))
       (JStr ''SN42'')
     = None"
  by (simp add: on_message_def scenario_frame_def CALL_MESSAGE_def CALL_RESULT_MESSAGE_def)

subsection \<open>C8: malformed frames\<close>

text \<open>
  Claim C8: a malformed frame, invalid JSON included, is logged and dropped, the
  connection stays open, and no message is fatal to the process. The handler has one
  branch that logs and drops what it does not support, and no \<open>try\<close> around
  \<open>JSON.parse\<close>: on a frame that is not JSON the SyntaxError leaves the handler
  uncaught, and so does the TypeError of reading \<open>messageTypeId\<close> from the frame
  \<open>null\<close>.
\<close>

theorem C8_invalid_json_leaves_the_handler:
  "on_message 1 ''{not json'' None iso0 [(JStr ''SN42'', 1)] =
     \<lparr>result = Thrown SyntaxError, chargerConnections = [(JStr ''SN42'', 1)],
      effects = [Log ''Received: {not json'']\<rparr>
   \<and> on_message 1 ''null'' (Some JNull) iso0 [(JStr ''SN42'', 1)] =
     \<lparr>result = Thrown TypeError, chargerConnections = [(JStr ''SN42'', 1)],
      effects = [Log ''Received: null'']\<rparr>"
  by (simp add: on_message_def)

subsection \<open>C9: the validation of \<open>POST /start\<close>\<close>

text \<open>
  Claim C9: \<open>POST /start\<close> answers 400 exactly when one of \<open>chargePointId\<close>,
  \<open>connectorId\<close>, \<open>idTag\<close> is missing, and 200 when all three are present, also when
  \<open>connectorId\<close> is 0. The route tests \<open>!connectorId\<close>, which holds of 0: the body of
  the scenario with connector 0, for the connected charger \<open>SN42\<close>, is answered 400
  "Missing required parameters", and nothing is sent.
\<close>

theorem C9_connectorId_zero_is_rejected:
  "post_start 1700000000000 (start_body (JNum ''0'')) [(JStr ''SN42'', 1)] =
     \<lparr>result = Returned (400,
        ''Missing required parameters: chargePointId, connectorId, idTag''),
      chargerConnections = [(JStr ''SN42'', 1)], effects = []\<rparr>"
  by (simp add: post_start_def start_body_def js_not_def)

subsection \<open>C10: what the close handler removes\<close>

text \<open>
  Claim C10: the close handler removes at most one entry, the first in the order of the
  map whose connection is the closing one; every entry after it stays, also a second
  entry of the same connection.
\<close>

theorem C10_close_removes_first_entry_only:
  assumes "ws \<notin> snd ` set pre"
  shows "chargerConnections (on_close ws (pre @ (k, ws) # post)) = pre @ post
       \<and> chargerConnections (on_close ws pre) = pre
       \<and> length reg \<le> Suc (length (chargerConnections (on_close ws reg)))"
  using assms
  by (simp add: on_close_registry close_loop_split close_loop_absent close_loop_length)

text \<open>
  The theorem at a map in which connection 1 is registered as \<open>A\<close> and as \<open>B\<close>:
  after it closes, \<open>B\<close> still maps to it.
\<close>

theorem C10_close_removes_first_entry_only_witness:
  "chargerConnections
     (on_close 1 ([(JStr ''X'', 2)] @ (JStr ''A'', 1) # [(JStr ''B'', 1), (JStr ''Y'', 3)]))
     = [(JStr ''X'', 2)] @ [(JStr ''B'', 1), (JStr ''Y'', 3)]
   \<and> map_get (chargerConnections
        (on_close 1 ([(JStr ''X'', 2)] @ (JStr ''A'', 1) # [(JStr ''B'', 1), (JStr ''Y'', 3)])))
       (JStr ''B'') = Some 1"
proof -
  have "(1::nat) \<notin> snd ` set [(JStr ''X'', 2)]" by simp
  from C10_close_removes_first_entry_only
    [OF this, of "JStr ''A''" "[(JStr ''B'', 1), (JStr ''Y'', 3)]"]
  show ?thesis by (simp add: same_value_zero_def)
qed

end
